theory Spec2Isabelle
  imports Main "HOL-Library.Char_ord" "HOL-Library.List_Lexorder" "HOL-Library.Monad_Syntax"
begin

section \<open>Python text primitives used by backend_functions.py\<close>

text \<open>
  Python strings are modelled as HOL strings whose characters are the code points
  below 256; a character of a JSON string value, which an escape can make any code point,
  is a number. On the range below 256 \<open>str.isspace\<close> holds exactly for the code points
  9-13, 28-32, 133 and 160, and the regular-expression class \<open>\d\<close> holds exactly
  for the ten ASCII digits.
\<close>

definition LF :: char where
  "LF = CHR 0x0A"

definition CR :: char where
  "CR = CHR 0x0D"

definition DQ :: char where
  "DQ = CHR 0x22"

definition isspace :: "char \<Rightarrow> bool" where
  "isspace c = (of_char c \<in> {9, 10, 11, 12, 13, 28, 29, 30, 31, 32, 133, 160 :: nat})"

definition isdigit :: "char \<Rightarrow> bool" where
  "isdigit c = (c \<in> set ''0123456789'')"

text \<open>\<open>s.strip()\<close>: whitespace removed at both ends.\<close>

definition strip :: "string \<Rightarrow> string" where
  "strip s = rev (dropWhile isspace (rev (dropWhile isspace s)))"

text \<open>
  Reading in text mode (\<open>open(path, "r")\<close>, \<open>Popen(..., text=True)\<close>) translates
  the line ends \<open>\r\n\<close> and \<open>\r\<close> to \<open>\n\<close>.
\<close>

fun universal_newlines :: "string \<Rightarrow> string" where
  "universal_newlines [] = []"
| "universal_newlines [c] = (if c = CR then [LF] else [c])"
| "universal_newlines (c # d # ds) =
     (if c = CR \<and> d = LF then LF # universal_newlines ds
      else if c = CR then LF # universal_newlines (d # ds)
      else c # universal_newlines (d # ds))"

text \<open>
  Writing in text mode translates \<open>\n\<close> to \<open>os.linesep\<close>: \<open>\r\n\<close> when
  \<open>os.name == 'nt'\<close>, unchanged otherwise.
\<close>

fun write_newlines :: "bool \<Rightarrow> string \<Rightarrow> string" where
  "write_newlines nt [] = []"
| "write_newlines nt (c # cs) =
     (if nt \<and> c = LF then CR # LF # write_newlines nt cs else c # write_newlines nt cs)"

text \<open>
  \<open>f.readline()\<close> on the text still to be read: the line up to and including the
  first \<open>\n\<close> (the whole rest when there is none, the empty string at the end of the
  stream), paired with what remains.
\<close>

fun readline :: "string \<Rightarrow> string \<times> string" where
  "readline [] = ([], [])"
| "readline (c # cs) =
     (if c = LF then ([LF], cs)
      else (case readline cs of (l, r) \<Rightarrow> (c # l, r)))"

text \<open>\<open>s.split(sep)\<close> for a one-character separator, and \<open>sep.join(parts)\<close>.\<close>

fun split_on :: "char \<Rightarrow> string \<Rightarrow> string list" where
  "split_on sep [] = [[]]"
| "split_on sep (c # cs) =
     (if c = sep then [] # split_on sep cs
      else (case split_on sep cs of
              [] \<Rightarrow> [[c]]
            | w # ws \<Rightarrow> (c # w) # ws))"

fun join :: "string \<Rightarrow> string list \<Rightarrow> string" where
  "join sep [] = []"
| "join sep [w] = w"
| "join sep (w # v # vs) = w @ sep @ join sep (v # vs)"

text \<open>\<open>str(n)\<close> for a Python integer: decimal digits, a minus sign when negative.\<close>

definition digit_char :: "nat \<Rightarrow> char" where
  "digit_char d = char_of (48 + d)"

fun str_nat :: "nat \<Rightarrow> string" where
  "str_nat n = (if n < 10 then [digit_char n] else str_nat (n div 10) @ [digit_char (n mod 10)])"

declare str_nat.simps [simp del]

definition str_int :: "int \<Rightarrow> string" where
  "str_int i = (if i < 0 then CHR ''-'' # str_nat (nat (- i)) else str_nat (nat i))"

section \<open>Exceptions, the text layer, the platform\<close>

datatype py_error =
    FileNotFoundError
  | PermissionError
  | IsADirectoryError
  | CalledProcessError int
  | JSONDecodeError
  | TypeError
  | ValueError
  | RecursionError
  | UnicodeDecodeError
  | UnicodeEncodeError

text \<open>
  A stream that is read in text mode (a file opened with \<open>open(path, "r")\<close>, the pipe
  of \<open>Popen(..., text=True)\<close>) arrives in pieces, as the reads of the underlying
  file bring them. The decoder of the locale's encoding turns a piece into text, or
  fails on it; \<open>Undecodable\<close> at the end of the list also stands for bytes that are
  incomplete when the stream ends.
\<close>

datatype chunk = Decodes string | Undecodable

text \<open>
  \<open>decode_chunks\<close> gives the text that the text layer can hand out before it meets
  the end of the stream or an undecodable piece, and whether it meets such a piece.
  The line ends are translated as the decoder of the text layer does it: a \<open>\r\<close> at
  the end of a piece is held back (the flag) until the next piece shows whether a
  \<open>\n\<close> follows, and is translated at the end of the stream.
\<close>

fun decode_chunks :: "bool \<Rightarrow> chunk list \<Rightarrow> string \<times> bool" where
  "decode_chunks pendingcr [] = ((if pendingcr then [LF] else []), False)"
| "decode_chunks pendingcr (Undecodable # rest) = ([], True)"
| "decode_chunks pendingcr (Decodes s # rest) =
     (let output = (if pendingcr then CR # s else s);
          held = (output \<noteq> [] \<and> last output = CR);
          translated = universal_newlines (if held then butlast output else output)
      in case decode_chunks held rest of
           (text, failed) \<Rightarrow> (translated @ text, failed))"

text \<open>
  \<open>f.readline()\<close> on a stream: a complete line is returned from the text at hand;
  without one the text layer reads on, which raises \<open>UnicodeDecodeError\<close> when the
  next piece is undecodable. \<open>f.read()\<close> reads to the end of the stream.
\<close>

definition text_readline :: "bool \<Rightarrow> string \<Rightarrow> py_error + string \<times> string" where
  "text_readline failed buf =
     (case readline buf of
        (line, rest) \<Rightarrow>
          if failed \<and> LF \<notin> set line then Inl UnicodeDecodeError else Inr (line, rest))"


text \<open>
  What the functions take from the operating system and the interpreter:
  \<^item> \<open>os_nt\<close>: \<open>os.name == 'nt'\<close>;
  \<^item> \<open>read_error\<close>, \<open>write_error\<close>: the exception that opening an existing path for
    reading, or a path for writing, raises (\<open>PermissionError\<close>, \<open>IsADirectoryError\<close>,
    another \<open>OSError\<close>), if any;
  \<^item> \<open>encodable\<close>: the characters that the locale's encoding, which
    \<open>open(path, "w")\<close> uses, can encode;
  \<^item> \<open>int_max_str_digits\<close>: \<open>sys.get_int_max_str_digits()\<close>, 4300 by default, 0 for
    no limit;
  \<^item> \<open>encoder_depth\<close>, \<open>decoder_depth\<close>: how many arrays and objects inside one
    another the recursion limit lets \<open>json.dump\<close> and \<open>json.load\<close> enter;
  \<^item> \<open>float_repr\<close>: for the literal of a float, the \<open>repr\<close> of that float.
\<close>

record platform =
  os_nt :: bool
  read_error :: "string \<Rightarrow> py_error option"
  write_error :: "string \<Rightarrow> py_error option"
  encodable :: "char \<Rightarrow> bool"
  int_max_str_digits :: nat
  encoder_depth :: nat
  decoder_depth :: nat
  float_repr :: "string \<Rightarrow> string"

section \<open>Selection Store: save_selected_env, load_selected_env\<close>

text \<open>
  The file system maps a path that exists to the content of the file, as the pieces that
  reading it in text mode brings. A file that the program has written reads back, in one
  piece, as the text that was encoded: the locale's encoding decodes what it has encoded.
\<close>

type_synonym filesystem = "string \<rightharpoonup> chunk list"

definition SETTINGS_FILE :: string where
  "SETTINGS_FILE = ''settings.json''"

text \<open>
  \<open>open(path, "r")\<close> raises \<open>FileNotFoundError\<close> for a path that does not exist.
  \<open>open(path, "w")\<close> creates the file or truncates it to length zero at once.
\<close>

definition open_r :: "platform \<Rightarrow> string \<Rightarrow> filesystem \<Rightarrow> py_error + chunk list" where
  "open_r pf path fs =
     (case fs path of
        None \<Rightarrow> Inl FileNotFoundError
      | Some content \<Rightarrow>
          (case read_error pf path of Some e \<Rightarrow> Inl e | None \<Rightarrow> Inr content))"

definition open_w :: "platform \<Rightarrow> string \<Rightarrow> filesystem \<Rightarrow> py_error + filesystem" where
  "open_w pf path fs =
     (case write_error pf path of Some e \<Rightarrow> Inl e | None \<Rightarrow> Inr (fs(path \<mapsto> [])))"

text \<open>
  \<open>f.write(text)\<close> translates the line ends and encodes the text, raising
  \<open>UnicodeEncodeError\<close> when a character cannot be encoded; the \<open>with\<close> block then
  closes the file, with the text in it if the write succeeded and unchanged otherwise.
  The result is the exception raised, if any, and the file system afterwards.
\<close>

definition can_encode :: "platform \<Rightarrow> string \<Rightarrow> bool" where
  "can_encode pf text = list_all (encodable pf) (write_newlines (os_nt pf) text)"

definition write_close ::
  "platform \<Rightarrow> string \<Rightarrow> string \<Rightarrow> filesystem \<Rightarrow> py_error option \<times> filesystem" where
  "write_close pf path text fs =
     (if can_encode pf text
      then (None, fs(path \<mapsto> (case fs path of None \<Rightarrow> [] | Some old \<Rightarrow> old)
                                @ [Decodes (write_newlines (os_nt pf) text)]))
      else (Some UnicodeEncodeError, fs))"

text \<open>
  \<open>save_selected_env(env_type, env_name)\<close>: \<open>with open(SETTINGS_FILE, "w") as f:
  f.write(f"{env_type}\n{env_name}")\<close>.
\<close>

definition save_selected_env ::
  "platform \<Rightarrow> string \<Rightarrow> string \<Rightarrow> filesystem \<Rightarrow> py_error option \<times> filesystem" where
  "save_selected_env pf env_type env_name fs =
     (case open_w pf SETTINGS_FILE fs of
        Inl e \<Rightarrow> (Some e, fs)
      | Inr opened \<Rightarrow> write_close pf SETTINGS_FILE (env_type @ [LF] @ env_name) opened)"

text \<open>
  \<open>load_selected_env()\<close>: two \<open>readline().strip()\<close> calls on the opened file.
  \<open>FileNotFoundError\<close> is the only exception handled and gives \<open>(None, None)\<close>;
  any other exception of \<open>open\<close> or of \<open>readline\<close> reaches the caller.
\<close>

definition load_selected_env ::
  "platform \<Rightarrow> filesystem \<Rightarrow> py_error + string option \<times> string option" where
  "load_selected_env pf fs =
     (case open_r pf SETTINGS_FILE fs of
        Inl e \<Rightarrow> (if e = FileNotFoundError then Inr (None, None) else Inl e)
      | Inr content \<Rightarrow>
          (case decode_chunks False content of
             (text, failed) \<Rightarrow>
               (case text_readline failed text of
                  Inl e \<Rightarrow> Inl e
                | Inr (line1, rest1) \<Rightarrow>
                    (case text_readline failed rest1 of
                       Inl e \<Rightarrow> Inl e
                     | Inr (line2, rest2) \<Rightarrow> Inr (Some (strip line1), Some (strip line2))))))"

text \<open>
  The states of the file system that another process can observe while
  \<open>save_selected_env\<close> runs, in order: after \<open>open(SETTINGS_FILE, "w")\<close>, and
  after the \<open>with\<close> block has closed the file; none when the file cannot be opened.
\<close>

definition save_selected_env_states ::
  "platform \<Rightarrow> string \<Rightarrow> string \<Rightarrow> filesystem \<Rightarrow> filesystem list" where
  "save_selected_env_states pf env_type env_name fs =
     (case open_w pf SETTINGS_FILE fs of
        Inl e \<Rightarrow> []
      | Inr opened \<Rightarrow> [opened, snd (save_selected_env pf env_type env_name fs)])"

section \<open>Version Resolver: get_full_version\<close>

text \<open>
  \<open>re.findall(r'href="(\d+\.\d+\.\d+)/"', response.text)\<close>. Each \<open>\d+\<close> is
  followed by a character that is not a digit, so the greedy match is the only one:
  \<open>match_href\<close> matches the pattern at the start of the text and returns the group
  and the text after the match. \<open>findall\<close> tries every position from left to right
  and resumes after a match.
\<close>

definition expect_str :: "string \<Rightarrow> string \<Rightarrow> string option" where
  "expect_str p s = (if take (length p) s = p then Some (drop (length p) s) else None)"

definition digits1 :: "string \<Rightarrow> (string \<times> string) option" where
  "digits1 s =
     (if takeWhile isdigit s = [] then None
      else Some (takeWhile isdigit s, dropWhile isdigit s))"

definition match_href :: "string \<Rightarrow> (string \<times> string) option" where
  "match_href s =
     do {
       s1 \<leftarrow> expect_str (''href='' @ [DQ]) s;
       (major, s2) \<leftarrow> digits1 s1;
       s3 \<leftarrow> expect_str ''.'' s2;
       (minor, s4) \<leftarrow> digits1 s3;
       s5 \<leftarrow> expect_str ''.'' s4;
       (patch, s6) \<leftarrow> digits1 s5;
       rest \<leftarrow> expect_str (''/'' @ [DQ]) s6;
       Some (major @ ''.'' @ minor @ ''.'' @ patch, rest)
     }"

lemma expect_str_length: "expect_str p s = Some r \<Longrightarrow> length r \<le> length s"
  by (auto simp: expect_str_def split: if_splits)

lemma digits1_length: "digits1 s = Some (d, r) \<Longrightarrow> length r < length s"
  by (cases s) (auto simp: digits1_def length_dropWhile_le less_Suc_eq_le split: if_splits)

lemma match_href_length: "match_href s = Some (v, rest) \<Longrightarrow> length rest < length s"
  unfolding match_href_def
  by (auto simp: bind_eq_Some_conv dest!: expect_str_length digits1_length)

function findall :: "string \<Rightarrow> string list" where
  "findall [] = []"
| "findall (c # cs) =
     (case match_href (c # cs) of
        Some (v, rest) \<Rightarrow> v # findall rest
      | None \<Rightarrow> findall cs)"
  by pat_completeness auto
termination
  by (relation "measure length") (auto dest: match_href_length)

text \<open>
  The outcome of \<open>requests.get(base_url, timeout=10)\<close>: a
  \<open>requests.RequestException\<close> (connection error, timeout, ...) or a response with
  its status code and body. \<open>response.raise_for_status()\<close> raises \<open>HTTPError\<close>, a
  \<open>RequestException\<close>, for the status codes 400 to 599.
\<close>

datatype http_result = RequestException | Response nat string

definition raise_for_status :: "nat \<Rightarrow> bool" where
  "raise_for_status status_code = (400 \<le> status_code \<and> status_code < 600)"

text \<open>\<open>".".join(full_version.split(".")[:2])\<close>\<close>

definition major_minor :: "string \<Rightarrow> string" where
  "major_minor full_version = join ''.'' (take 2 (split_on (CHR ''.'') full_version))"

text \<open>
  The loop \<open>for full_version in versions: version_map[major_minor] = full_version\<close>:
  a later version of the list replaces an earlier one with the same key.
\<close>

definition build_version_map :: "string list \<Rightarrow> (string \<rightharpoonup> string)" where
  "build_version_map versions =
     fold (\<lambda>full_version version_map. version_map(major_minor full_version \<mapsto> full_version))
       versions Map.empty"

text \<open>
  \<open>versions.sort(reverse=True)\<close> orders the strings by code point, greatest first;
  \<open>version_map.get(version_display, version_display)\<close> falls back to the argument.
\<close>

definition get_full_version :: "http_result \<Rightarrow> string \<Rightarrow> string" where
  "get_full_version fetched version_display =
     (case fetched of
        RequestException \<Rightarrow> version_display
      | Response status_code text \<Rightarrow>
          if raise_for_status status_code then version_display
          else (case build_version_map (rev (sort (findall text))) version_display of
                  None \<Rightarrow> version_display
                | Some latest_full_version \<Rightarrow> latest_full_version))"

section \<open>Environment Registry: unique names in create_virtual_env and create_conda_env\<close>

text \<open>
  The loop of \<open>create_virtual_env\<close>, \<open>while os.path.exists(final_name): num += 1;
  final_name = f"{base_name}_{num}" if num > 0 else base_name\<close>, with the state
  of the loop as arguments. It need not end; then the value is \<open>None\<close>.
\<close>

partial_function (option) venv_name_loop ::
  "(string \<Rightarrow> bool) \<Rightarrow> string \<Rightarrow> int \<Rightarrow> string \<Rightarrow> string option" where
  "venv_name_loop path_exists base_name num final_name =
     (if path_exists final_name
      then venv_name_loop path_exists base_name (num + 1)
             (if num + 1 > 0 then base_name @ ''_'' @ str_int (num + 1) else base_name)
      else Some final_name)"

declare venv_name_loop.simps [code]

text \<open>
  \<open>create_virtual_env(env_name, python_version)\<close>. \<open>path_exists\<close> is
  \<open>os.path.exists\<close>; \<open>check_call\<close> is \<open>subprocess.check_call\<close>, giving the
  exception it raises, if any.
\<close>

definition create_virtual_env ::
  "(string \<Rightarrow> bool) \<Rightarrow> (string list \<Rightarrow> py_error option) \<Rightarrow> string \<Rightarrow> string
     \<Rightarrow> (py_error + string) option" where
  "create_virtual_env path_exists check_call env_name python_version =
     (let base_name = (if env_name = [] then ''myenv'' else env_name) in
      case venv_name_loop path_exists base_name 0 base_name of
        None \<Rightarrow> None
      | Some final_name \<Rightarrow>
          (case check_call [''py'', ''-'' @ python_version, ''-m'', ''venv'', final_name] of
             Some e \<Rightarrow> Some (Inl e)
           | None \<Rightarrow> Some (Inr final_name)))"

text \<open>
  The loop of \<open>create_conda_env\<close>: \<open>while True: env_exists = final_name in
  list_conda_envs(); if not env_exists: break; num += 1; final_name = ...\<close>.
  \<open>envs\<close> is what \<open>list_conda_envs()\<close> returns, taken to be the same at every
  iteration.
\<close>

partial_function (option) conda_name_loop ::
  "string list \<Rightarrow> string \<Rightarrow> int \<Rightarrow> string \<Rightarrow> string option" where
  "conda_name_loop envs base_name num final_name =
     (if final_name \<notin> set envs then Some final_name
      else conda_name_loop envs base_name (num + 1)
             (if num + 1 > 0 then base_name @ ''_'' @ str_int (num + 1) else base_name))"

declare conda_name_loop.simps [code]

definition create_conda_env :: "string list \<Rightarrow> string \<Rightarrow> string option" where
  "create_conda_env envs env_name =
     (let base_name = (if env_name = [] then ''myenv'' else env_name) in
      conda_name_loop envs base_name 0 base_name)"

text \<open>The sequence \<open>base, base_1, base_2, \<dots>\<close> of the specification.\<close>

definition candidate :: "string \<Rightarrow> nat \<Rightarrow> string" where
  "candidate base k = (if k = 0 then base else base @ ''_'' @ str_nat k)"

section \<open>Process Runner: InstallWorker.run\<close>

text \<open>
  The two Qt signals of \<open>InstallWorker\<close>, and what \<open>run\<close> does in order: a
  \<open>readline\<close> call with the line it returned, the emission of a signal, the
  \<open>process.wait()\<close> call with the code it returned.
\<close>

datatype signal = output_signal string | finished_signal int string

datatype action = Readline string | Emit signal | Wait int

text \<open>
  What \<open>subprocess.Popen(command, stdout=PIPE, stderr=STDOUT, text=True)\<close> gives:
  an exception when the process cannot be started, or a child with everything it
  writes to its merged output stream before closing it, in the pieces in which the pipe
  delivers it, and its exit code.
\<close>

datatype popen_result = Raises py_error | Child "chunk list" int

record InstallWorker =
  self_command :: "string list"
  self_env_name :: string

lemma readline_length: "readline s = (l, r) \<Longrightarrow> length l + length r = length s"
  by (induction s arbitrary: l r) (auto split: if_splits prod.splits)

lemma text_readline_shorter:
  "text_readline failed s = Inr (l, r) \<Longrightarrow> l \<noteq> [] \<Longrightarrow> length r < length s"
  using readline_length [of s l r]
  by (cases l) (auto simp: text_readline_def split: prod.splits if_splits)

text \<open>
  The loop \<open>while True: output_line = process.stdout.readline(); ...\<close>: what it does,
  and the exception of \<open>readline\<close> that ends it, if any.
\<close>

function read_loop :: "bool \<Rightarrow> string \<Rightarrow> action list \<times> py_error option" where
  "read_loop failed stdout =
     (case text_readline failed stdout of
        Inl e \<Rightarrow> ([], Some e)
      | Inr (output_line, rest) \<Rightarrow>
          if output_line \<noteq> []
          then (case read_loop failed rest of
                  (acts, exn) \<Rightarrow>
                    (Readline output_line # Emit (output_signal (strip output_line)) # acts, exn))
          else ([Readline output_line], None))"
  by pat_completeness auto
termination
  by (relation "measure (\<lambda>(failed, s). length s)") (auto intro: text_readline_shorter)

declare read_loop.simps [simp del]

text \<open>
  \<open>run\<close> returns what it did and the exception that ended it, if any: the exception
  of \<open>Popen\<close> or of \<open>readline\<close>; \<open>process.wait()\<close> and the emission of
  \<open>finished_signal\<close> come after the loop.
\<close>

definition run ::
  "(string list \<Rightarrow> popen_result) \<Rightarrow> InstallWorker \<Rightarrow> action list \<times> py_error option" where
  "run Popen self =
     (case Popen (self_command self) of
        Raises e \<Rightarrow> ([], Some e)
      | Child out return_code \<Rightarrow>
          (case decode_chunks False out of
             (text, failed) \<Rightarrow>
               (case read_loop failed text of
                  (acts, Some e) \<Rightarrow> (acts, Some e)
                | (acts, None) \<Rightarrow>
                    (acts @ [Wait return_code,
                             Emit (finished_signal return_code (self_env_name self))],
                     None))))"

definition emitted :: "action list \<Rightarrow> signal list" where
  "emitted acts = concat (map (\<lambda>a. case a of Emit s \<Rightarrow> [s] | _ \<Rightarrow> []) acts)"

text \<open>
  The lines of a text, each with its line end, the last one possibly without
  (\<open>str.splitlines(keepends=True)\<close> for the line end \<open>\n\<close>).
\<close>

fun text_lines :: "string \<Rightarrow> string list" where
  "text_lines [] = []"
| "text_lines (c # cs) =
     (if c = LF then [LF] # text_lines cs
      else (case text_lines cs of
              [] \<Rightarrow> [[c]]
            | l # ls \<Rightarrow> (c # l) # ls))"

section \<open>Activation Launcher: launch_activated_cmd\<close>

text \<open>
  What \<open>launch_activated_cmd\<close> does, in order: log lines (\<open>log_info\<close>,
  \<open>log_success\<close>, \<open>log_error\<close>; the time stamp is left out), a process started by
  \<open>subprocess.Popen(cmd, creationflags=...)\<close>, a \<open>QMessageBox.critical\<close> dialog.
  A message is the sequence of the pieces of its f-string: text, an interpolated list
  of strings, an interpolated exception.
\<close>

datatype level = INFO | SUCCESS | ERROR

datatype piece = Str string | StrList "string list" | Exc py_error

datatype effect =
    Log level "piece list"
  | Spawned "string list" nat
  | MessageBox string "piece list"

definition CREATE_NEW_CONSOLE :: nat where
  "CREATE_NEW_CONSOLE = 16"

text \<open>
  \<open>posixpath.join\<close>, which is \<open>os.path.join\<close> where \<open>os.name\<close> is
  \<open>'posix'\<close>: a component that starts with the separator replaces what precedes it,
  and a separator is inserted unless the path so far is empty or ends with one.
\<close>

definition posixpath_join2 :: "string \<Rightarrow> string \<Rightarrow> string" where
  "posixpath_join2 path b =
     (if take 1 b = ''/'' then b
      else if path = [] \<or> last path = CHR ''/'' then path @ b
      else path @ ''/'' @ b)"

definition posixpath_join :: "string \<Rightarrow> string \<Rightarrow> string \<Rightarrow> string" where
  "posixpath_join a b c = posixpath_join2 (posixpath_join2 a b) c"

text \<open>
  \<open>os_name\<close> is \<open>os.name\<close>, \<open>path_join\<close> is \<open>os.path.join\<close> on three
  components, \<open>Popen\<close> gives the exception that starting the process raises, if any.
  The function returns \<open>None\<close> on every path and raises nothing: the body after the
  name check is inside \<open>try: ... except Exception\<close>.
\<close>

definition launch_activated_cmd ::
  "string \<Rightarrow> (string \<Rightarrow> string \<Rightarrow> string \<Rightarrow> string) \<Rightarrow> (string list \<Rightarrow> nat \<Rightarrow> py_error option)
     \<Rightarrow> string \<Rightarrow> string \<Rightarrow> effect list" where
  "launch_activated_cmd os_name path_join Popen env_type env_name =
     (if env_name = [] then [Log ERROR [Str ''Error: No environment name provided.'']]
      else
        let creationflags = (if os_name = ''nt'' then CREATE_NEW_CONSOLE else 0);
            command_to_run =
              (if env_type = ''venv''
               then ''call '' @ path_join env_name ''Scripts'' ''activate.bat''
                      @ '' && where python && python --version''
               else if env_type = ''conda''
               then ''conda activate '' @ env_name @ '' && conda info --envs''
               else ''echo Error: Unknown environment type && pause'');
            cmd = (if os_name = ''nt'' then [''cmd.exe'', ''/K'', command_to_run]
                   else [''/bin/bash'', ''-c'', command_to_run])
        in
          [Log INFO [Str (''Launching CMD with activation for: '' @ env_name
                            @ '' (Type: '' @ env_type @ '')'')]]
          @ (if env_type \<noteq> ''venv'' \<and> env_type = ''conda''
             then [Log INFO [Str (''Conda Activate Command: '' @ command_to_run)]] else [])
          @ [Log INFO [Str ''Executing command: '', StrList cmd]]
          @ (case Popen cmd creationflags of
               None \<Rightarrow>
                 [Spawned cmd creationflags,
                  Log SUCCESS [Str ''subprocess.Popen for activated CMD called.'']]
             | Some e \<Rightarrow>
                 [Log ERROR [Str ''Error launching activated CMD: '', Exc e],
                  MessageBox ''Activation Error'' [Str ''Error launching activated CMD: '', Exc e]]))"

section \<open>Settings: save_setting, load_settings\<close>

text \<open>
  The values \<open>json.load\<close> returns and \<open>json.dump\<close> accepts. A float is given by a
  literal that denotes it; a string is the list of its code points (numbers below
  \<open>0x110000\<close>); a \<open>dict\<close> is the list of its items in insertion order, with
  distinct keys.
\<close>

datatype json =
    JNull
  | JBool bool
  | JInt int
  | JFloat string
  | JString "nat list"
  | JArray "json list"
  | JObject "(nat list \<times> json) list"

definition BS :: char where
  "BS = CHR 0x5C"

text \<open>\<open>d[key] = value\<close> on a \<open>dict\<close>: the value is replaced in place, a new key is
  added at the end.\<close>

fun dict_set :: "(nat list \<times> json) list \<Rightarrow> nat list \<Rightarrow> json \<Rightarrow> (nat list \<times> json) list" where
  "dict_set [] k v = [(k, v)]"
| "dict_set ((k', v') # ps) k v =
     (if k' = k then (k, v) # ps else (k', v') # dict_set ps k v)"

text \<open>
  Converting between \<open>int\<close> and \<open>str\<close> raises \<open>ValueError\<close> when the number has
  more digits than \<open>sys.get_int_max_str_digits()\<close>, unless that limit is 0.
\<close>

definition too_many_digits :: "platform \<Rightarrow> string \<Rightarrow> bool" where
  "too_many_digits pf digits =
     (0 < int_max_str_digits pf \<and> int_max_str_digits pf < length digits)"

subsection \<open>json.dump(settings, f, indent=4)\<close>

definition hex_digit :: "nat \<Rightarrow> char" where
  "hex_digit n = ''0123456789abcdef'' ! (n mod 16)"

definition hex4 :: "nat \<Rightarrow> string" where
  "hex4 n = [BS, CHR ''u'', hex_digit (n div 4096), hex_digit (n div 256),
             hex_digit (n div 16), hex_digit n]"

text \<open>
  \<open>ensure_ascii\<close> is on: a character outside \<open>' '\<close> to \<open>'~'\<close>, a double quote and a
  backslash are written as escapes, a code point from \<open>0x10000\<close> as a surrogate pair.
\<close>

definition escape_char :: "nat \<Rightarrow> string" where
  "escape_char n =
     (if n = 0x22 then [BS, DQ]
      else if n = 0x5C then [BS, BS]
      else if n = 0x0A then [BS, CHR ''n'']
      else if n = 0x0D then [BS, CHR ''r'']
      else if n = 0x09 then [BS, CHR ''t'']
      else if n = 0x08 then [BS, CHR ''b'']
      else if n = 0x0C then [BS, CHR ''f'']
      else if 32 \<le> n \<and> n \<le> 126 then [char_of n]
      else if n < 0x10000 then hex4 n
      else hex4 (0xD800 + ((n - 0x10000) div 1024) mod 1024)
           @ hex4 (0xDC00 + (n - 0x10000) mod 1024))"

definition encode_str :: "nat list \<Rightarrow> string" where
  "encode_str s = [DQ] @ concat (map escape_char s) @ [DQ]"

definition newline_indent :: "nat \<Rightarrow> string" where
  "newline_indent level = LF # replicate (4 * level) (CHR '' '')"

definition int_str :: "platform \<Rightarrow> int \<Rightarrow> py_error + string" where
  "int_str pf i =
     (if too_many_digits pf (str_nat (nat \<bar>i\<bar>)) then Inl ValueError else Inr (str_int i))"

text \<open>
  The text that \<open>json.dump\<close> writes, or the exception that ends it: \<open>ValueError\<close>
  at an integer with too many digits, \<open>RecursionError\<close> at an array or object nested
  deeper than the recursion limit allows. The values are encoded in order, so the first
  failure is the one raised.
\<close>

fun dumps :: "platform \<Rightarrow> nat \<Rightarrow> json \<Rightarrow> py_error + string"
  and dumps_items :: "platform \<Rightarrow> nat \<Rightarrow> json list \<Rightarrow> py_error + string list"
  and dumps_members :: "platform \<Rightarrow> nat \<Rightarrow> (nat list \<times> json) list \<Rightarrow> py_error + string list"
where
  "dumps pf level JNull = Inr ''null''"
| "dumps pf level (JBool b) = Inr (if b then ''true'' else ''false'')"
| "dumps pf level (JInt i) = int_str pf i"
| "dumps pf level (JFloat lit) = Inr (float_repr pf lit)"
| "dumps pf level (JString s) = Inr (encode_str s)"
| "dumps pf level (JArray xs) =
     (if encoder_depth pf \<le> level then Inl RecursionError
      else if xs = [] then Inr ''[]''
      else (case dumps_items pf (level + 1) xs of
              Inl e \<Rightarrow> Inl e
            | Inr parts \<Rightarrow>
                Inr (''['' @ newline_indent (level + 1)
                     @ join ('','' @ newline_indent (level + 1)) parts
                     @ newline_indent level @ '']'')))"
| "dumps pf level (JObject ps) =
     (if encoder_depth pf \<le> level then Inl RecursionError
      else if ps = [] then Inr ''{}''
      else (case dumps_members pf (level + 1) ps of
              Inl e \<Rightarrow> Inl e
            | Inr parts \<Rightarrow>
                Inr (''{'' @ newline_indent (level + 1)
                     @ join ('','' @ newline_indent (level + 1)) parts
                     @ newline_indent level @ ''}'')))"
| "dumps_items pf level [] = Inr []"
| "dumps_items pf level (x # xs) =
     (case dumps pf level x of
        Inl e \<Rightarrow> Inl e
      | Inr part \<Rightarrow>
          (case dumps_items pf level xs of
             Inl e \<Rightarrow> Inl e
           | Inr parts \<Rightarrow> Inr (part # parts)))"
| "dumps_members pf level [] = Inr []"
| "dumps_members pf level (p # ps) =
     (case dumps pf level (snd p) of
        Inl e \<Rightarrow> Inl e
      | Inr part \<Rightarrow>
          (case dumps_members pf level ps of
             Inl e \<Rightarrow> Inl e
           | Inr parts \<Rightarrow> Inr ((encode_str (fst p) @ '': '' @ part) # parts)))"

subsection \<open>json.load(f)\<close>

text \<open>
  \<open>json.load(f)\<close> decodes the whole text of the file: white space (space, tab,
  \<open>\n\<close>, \<open>\r\<close>), one value, white space, and nothing else; anything else raises
  \<open>JSONDecodeError\<close>. The decoder is modelled as a scanner that reads one character
  at a time. Its \<open>mode\<close> says what may come next: a value, the first item or the
  end of an array or object, a key, the colon, what follows a complete value, the
  inside of a string (of a key when the flag is set), of an escape or of the four
  digits of \<open>\u\<close> (after a high surrogate, which a low surrogate that follows at once
  completes to one code point), the rest of \<open>null\<close>, \<open>true\<close>, \<open>false\<close>, \<open>NaN\<close> and
  \<open>Infinity\<close>, the parts of a number. Its stack holds the arrays and objects that are
  open, with the items read so far and, for an object, the key whose value is being
  read. Strings are decoded strictly: a character below 32 inside a string is an
  error. A key that occurs again replaces the value of the earlier item, as \<open>dict\<close>
  does. A number is the longest text that matches
  \<open>-?(0|[1-9][0-9]*)(\.[0-9]+)?([eE][-+]?[0-9]+)?\<close>: an integer without fraction and
  exponent, whose conversion raises \<open>ValueError\<close> when it has too many digits, a
  float otherwise.
\<close>

definition json_ws :: "char \<Rightarrow> bool" where
  "json_ws c = (c = CHR '' '' \<or> c = CHR 0x09 \<or> c = LF \<or> c = CR)"

definition hex_val :: "char \<Rightarrow> nat option" where
  "hex_val c =
     (if isdigit c then Some (of_char c - 48)
      else if c \<in> set ''abcdef'' then Some (of_char c - 87)
      else if c \<in> set ''ABCDEF'' then Some (of_char c - 55)
      else None)"

definition nat_of_digits :: "string \<Rightarrow> nat" where
  "nat_of_digits digits = foldl (\<lambda>a c. 10 * a + (of_char c - 48)) 0 digits"

definition int_of_digits :: "bool \<Rightarrow> string \<Rightarrow> int" where
  "int_of_digits neg digits = (if neg then - int (nat_of_digits digits) else int (nat_of_digits digits))"

definition literal :: "bool \<Rightarrow> string \<Rightarrow> string" where
  "literal neg digits = (if neg then CHR ''-'' # digits else digits)"

datatype numval = IntLit bool string | FloatLit string

datatype mode =
    Value | ArrayStart | ObjectStart | KeyNext | Colon | After | Done json
  | InStr bool "nat list" | InStrEsc bool "nat list"
  | InStrU bool "nat list" "nat option" "nat list"
  | InStrHigh bool "nat list" nat | InStrHighEsc bool "nat list" nat
  | Lit string json
  | NumMinus | NumZero bool | NumInt bool string | NumDot bool string | NumFrac string
  | NumE numval string | NumExp string

datatype frame = FArray "json list" | FObject "(nat list \<times> json) list" "nat list"

datatype step_result = Cont mode "frame list" | Stop py_error

fun complete :: "json \<Rightarrow> frame list \<Rightarrow> step_result" where
  "complete v [] = Cont (Done v) []"
| "complete v (FArray xs # st) = Cont After (FArray (xs @ [v]) # st)"
| "complete v (FObject ps k # st) = Cont After (FObject (dict_set ps k v) [] # st)"

fun step_after :: "mode \<Rightarrow> frame list \<Rightarrow> char \<Rightarrow> step_result" where
  "step_after m st c =
     (if json_ws c then Cont m st
      else (case st of
              [] \<Rightarrow> Stop JSONDecodeError
            | FArray xs # st' \<Rightarrow>
                if c = CHR '','' then Cont Value st
                else if c = CHR '']'' then complete (JArray xs) st'
                else Stop JSONDecodeError
            | FObject ps k # st' \<Rightarrow>
                if c = CHR '','' then Cont KeyNext st
                else if c = CHR ''}'' then complete (JObject ps) st'
                else Stop JSONDecodeError))"

definition step_value :: "platform \<Rightarrow> frame list \<Rightarrow> char \<Rightarrow> step_result" where
  "step_value pf st c =
     (if json_ws c then Cont Value st
      else if c = DQ then Cont (InStr False []) st
      else if c = CHR ''{'' then
        (if decoder_depth pf \<le> length st then Stop RecursionError
         else Cont ObjectStart (FObject [] [] # st))
      else if c = CHR ''['' then
        (if decoder_depth pf \<le> length st then Stop RecursionError
         else Cont ArrayStart (FArray [] # st))
      else if c = CHR ''n'' then Cont (Lit ''ull'' JNull) st
      else if c = CHR ''t'' then Cont (Lit ''rue'' (JBool True)) st
      else if c = CHR ''f'' then Cont (Lit ''alse'' (JBool False)) st
      else if c = CHR ''-'' then Cont NumMinus st
      else if c = CHR ''0'' then Cont (NumZero False) st
      else if isdigit c then Cont (NumInt False [c]) st
      else if c = CHR ''N'' then Cont (Lit ''aN'' (JFloat ''NaN'')) st
      else if c = CHR ''I'' then Cont (Lit ''nfinity'' (JFloat ''Infinity'')) st
      else Stop JSONDecodeError)"

text \<open>
  The end of a number: the integer is converted and the value is complete; the character
  that ended it is what follows the value. Where the character cannot follow a value,
  the conversion error of the integer still comes first.
\<close>

definition end_value :: "json \<Rightarrow> frame list \<Rightarrow> char \<Rightarrow> step_result" where
  "end_value v st c =
     (case complete v st of
        Cont m st' \<Rightarrow> step_after m st' c
      | Stop e \<Rightarrow> Stop e)"

definition end_int :: "platform \<Rightarrow> bool \<Rightarrow> string \<Rightarrow> frame list \<Rightarrow> char \<Rightarrow> step_result" where
  "end_int pf neg digits st c =
     (if too_many_digits pf digits then Stop ValueError
      else end_value (JInt (int_of_digits neg digits)) st c)"

definition int_stop :: "platform \<Rightarrow> string \<Rightarrow> py_error" where
  "int_stop pf digits = (if too_many_digits pf digits then ValueError else JSONDecodeError)"

definition is_high :: "nat \<Rightarrow> bool" where
  "is_high n = (0xD800 \<le> n \<and> n \<le> 0xDBFF)"

definition is_low :: "nat \<Rightarrow> bool" where
  "is_low n = (0xDC00 \<le> n \<and> n \<le> 0xDFFF)"

definition step_str :: "bool \<Rightarrow> nat list \<Rightarrow> frame list \<Rightarrow> char \<Rightarrow> step_result" where
  "step_str is_key acc st c =
     (if c = DQ
      then (if is_key
            then (case st of
                    FObject ps k # st' \<Rightarrow> Cont Colon (FObject ps acc # st')
                  | _ \<Rightarrow> Stop JSONDecodeError)
            else complete (JString acc) st)
      else if c = BS then Cont (InStrEsc is_key acc) st
      else if of_char c < (32 :: nat) then Stop JSONDecodeError
      else Cont (InStr is_key (acc @ [of_char c])) st)"

definition step_esc :: "bool \<Rightarrow> nat list \<Rightarrow> frame list \<Rightarrow> char \<Rightarrow> step_result" where
  "step_esc is_key acc st c =
     (if c = DQ \<or> c = BS \<or> c = CHR ''/'' then Cont (InStr is_key (acc @ [of_char c])) st
      else if c = CHR ''b'' then Cont (InStr is_key (acc @ [0x08])) st
      else if c = CHR ''f'' then Cont (InStr is_key (acc @ [0x0C])) st
      else if c = CHR ''n'' then Cont (InStr is_key (acc @ [0x0A])) st
      else if c = CHR ''r'' then Cont (InStr is_key (acc @ [0x0D])) st
      else if c = CHR ''t'' then Cont (InStr is_key (acc @ [0x09])) st
      else if c = CHR ''u'' then Cont (InStrU is_key acc None []) st
      else Stop JSONDecodeError)"

definition start_u :: "bool \<Rightarrow> nat list \<Rightarrow> nat \<Rightarrow> frame list \<Rightarrow> step_result" where
  "start_u is_key acc n st =
     (if is_high n then Cont (InStrHigh is_key acc n) st
      else Cont (InStr is_key (acc @ [n])) st)"

definition end_u :: "bool \<Rightarrow> nat list \<Rightarrow> nat option \<Rightarrow> nat \<Rightarrow> frame list \<Rightarrow> step_result" where
  "end_u is_key acc high n st =
     (case high of
        None \<Rightarrow> start_u is_key acc n st
      | Some h \<Rightarrow>
          if is_low n
          then Cont (InStr is_key (acc @ [0x10000 + (h - 0xD800) * 1024 + (n - 0xDC00)])) st
          else start_u is_key (acc @ [h]) n st)"

fun step :: "platform \<Rightarrow> mode \<Rightarrow> frame list \<Rightarrow> char \<Rightarrow> step_result" where
  "step pf Value st c = step_value pf st c"
| "step pf ArrayStart st c =
     (if json_ws c then Cont ArrayStart st
      else if c = CHR '']'' then complete (JArray []) (tl st)
      else step_value pf st c)"
| "step pf ObjectStart st c =
     (if json_ws c then Cont ObjectStart st
      else if c = CHR ''}'' then complete (JObject []) (tl st)
      else if c = DQ then Cont (InStr True []) st
      else Stop JSONDecodeError)"
| "step pf KeyNext st c =
     (if json_ws c then Cont KeyNext st
      else if c = DQ then Cont (InStr True []) st
      else Stop JSONDecodeError)"
| "step pf Colon st c =
     (if json_ws c then Cont Colon st
      else if c = CHR '':'' then Cont Value st
      else Stop JSONDecodeError)"
| "step pf After st c = step_after After st c"
| "step pf (Done v) st c = step_after (Done v) st c"
| "step pf (InStr is_key acc) st c = step_str is_key acc st c"
| "step pf (InStrEsc is_key acc) st c = step_esc is_key acc st c"
| "step pf (InStrU is_key acc high ds) st c =
     (case hex_val c of
        None \<Rightarrow> Stop JSONDecodeError
      | Some d \<Rightarrow>
          if length ds < 3 then Cont (InStrU is_key acc high (ds @ [d])) st
          else end_u is_key acc high (foldl (\<lambda>a x. 16 * a + x) 0 (ds @ [d])) st)"
| "step pf (InStrHigh is_key acc h) st c =
     (if c = BS then Cont (InStrHighEsc is_key acc h) st
      else step_str is_key (acc @ [h]) st c)"
| "step pf (InStrHighEsc is_key acc h) st c =
     (if c = CHR ''u'' then Cont (InStrU is_key acc (Some h) []) st
      else step_esc is_key (acc @ [h]) st c)"
| "step pf (Lit rest v) st c =
     (case rest of
        [] \<Rightarrow> Stop JSONDecodeError
      | x # xs \<Rightarrow>
          if c \<noteq> x then Stop JSONDecodeError
          else if xs = [] then complete v st
          else Cont (Lit xs v) st)"
| "step pf NumMinus st c =
     (if c = CHR ''0'' then Cont (NumZero True) st
      else if isdigit c then Cont (NumInt True [c]) st
      else if c = CHR ''I'' then Cont (Lit ''nfinity'' (JFloat ''-Infinity'')) st
      else Stop JSONDecodeError)"
| "step pf (NumZero neg) st c =
     (if c = CHR ''.'' then Cont (NumDot neg ''0'') st
      else if c = CHR ''e'' \<or> c = CHR ''E'' then Cont (NumE (IntLit neg ''0'') [c]) st
      else end_int pf neg ''0'' st c)"
| "step pf (NumInt neg digits) st c =
     (if isdigit c then Cont (NumInt neg (digits @ [c])) st
      else if c = CHR ''.'' then Cont (NumDot neg digits) st
      else if c = CHR ''e'' \<or> c = CHR ''E'' then Cont (NumE (IntLit neg digits) [c]) st
      else end_int pf neg digits st c)"
| "step pf (NumDot neg digits) st c =
     (if isdigit c then Cont (NumFrac (literal neg digits @ [CHR ''.'', c])) st
      else Stop (int_stop pf digits))"
| "step pf (NumFrac lexeme) st c =
     (if isdigit c then Cont (NumFrac (lexeme @ [c])) st
      else if c = CHR ''e'' \<or> c = CHR ''E'' then Cont (NumE (FloatLit lexeme) [c]) st
      else end_value (JFloat lexeme) st c)"
| "step pf (NumE matched pending) st c =
     (if isdigit c
      then Cont (NumExp ((case matched of IntLit neg digits \<Rightarrow> literal neg digits
                                        | FloatLit lexeme \<Rightarrow> lexeme) @ pending @ [c])) st
      else if (c = CHR ''+'' \<or> c = CHR ''-'') \<and> length pending = 1
      then Cont (NumE matched (pending @ [c])) st
      else Stop (case matched of IntLit neg digits \<Rightarrow> int_stop pf digits
                               | FloatLit lexeme \<Rightarrow> JSONDecodeError))"
| "step pf (NumExp lexeme) st c =
     (if isdigit c then Cont (NumExp (lexeme @ [c])) st
      else end_value (JFloat lexeme) st c)"






section \<open>Notions used in the statements\<close>


text \<open>The line of a text with a given index, counted from 0; empty when there is none.\<close>

definition line_at :: "string \<Rightarrow> nat \<Rightarrow> string" where
  "line_at text i = (if i < length (text_lines text) then text_lines text ! i else [])"


subsection \<open>Concrete inputs\<close>

text \<open>
  Two platforms. On both every path can be opened, the limits are the defaults, and
  \<open>float_repr\<close> is right on the literals that occur below. The first is not Windows
  and its encoding, UTF-8, encodes every character below 256; the second is Windows with
  the code page 1252, which of these characters encodes the ones below 128 and from 160.
\<close>

definition no_error :: "string \<Rightarrow> py_error option" where
  "no_error path = None"

definition all_chars :: "char \<Rightarrow> bool" where
  "all_chars c = True"


definition shortest_repr :: "string \<Rightarrow> string" where
  "shortest_repr lit = (if lit = ''1.50'' then ''1.5'' else lit)"

definition posix_utf8 :: platform where
  "posix_utf8 =
     \<lparr>os_nt = False, read_error = no_error, write_error = no_error, encodable = all_chars,
      int_max_str_digits = 4300, encoder_depth = 300, decoder_depth = 300,
      float_repr = shortest_repr\<rparr>"


definition empty_fs :: filesystem where
  "empty_fs = Map.empty"

text \<open>A directory listing as python.org serves it, one link per release.\<close>

definition href_entry :: "string \<Rightarrow> string" where
  "href_entry v = ''<a href='' @ [DQ] @ v @ ''/'' @ [DQ] @ ''>'' @ v @ ''/</a>'' @ [LF]"

definition mock_index :: string where
  "mock_index =
     href_entry ''3.11.0'' @ href_entry ''3.11.9'' @ href_entry ''3.11.2'' @ href_entry ''3.10.8''"

definition taken_names :: "string \<Rightarrow> bool" where
  "taken_names n = (n = ''myenv'' \<or> n = ''myenv_1'')"

definition check_call_ok :: "string list \<Rightarrow> py_error option" where
  "check_call_ok cmd = None"

definition popen_ok :: "string list \<Rightarrow> nat \<Rightarrow> py_error option" where
  "popen_ok cmd creationflags = None"

definition conda_create_job :: InstallWorker where
  "conda_create_job =
     \<lparr>self_command = [''conda'', ''create'', ''-n'', ''myenv'', ''python=3.11'', ''-y''],
      self_env_name = ''myenv''\<rparr>"

definition popen_exits_1 :: "string list \<Rightarrow> popen_result" where
  "popen_exits_1 cmd =
     Child [Decodes (''Collecting package metadata'' @ [CR]), Decodes ([LF, LF] @ ''  failed'')] 1"

definition popen_undecodable :: "string list \<Rightarrow> popen_result" where
  "popen_undecodable cmd = Child [Decodes (''Solving'' @ [LF] @ ''environment''), Undecodable] 0"

definition popen_not_found :: "string list \<Rightarrow> popen_result" where
  "popen_not_found cmd = Raises FileNotFoundError"

text \<open>Contents of settings.json, and a path that is a directory.\<close>

definition three_lines :: string where
  "three_lines = ''conda '' @ [CR, LF] @ ''  base'' @ [LF] @ ''more''"

definition directory_error :: "string \<Rightarrow> py_error option" where
  "directory_error path = Some IsADirectoryError"

definition old_selection :: filesystem where
  "old_selection = empty_fs(SETTINGS_FILE \<mapsto> [Decodes (''venv'' @ [LF] @ ''old'')])"





section \<open>Text primitives: auxiliary facts\<close>

lemma un_notCR: "c \<noteq> CR \<Longrightarrow> universal_newlines (c # cs) = c # universal_newlines cs"
  by (cases cs) auto



lemma un_snoc_CR: "universal_newlines (s @ [CR]) = universal_newlines s @ [LF]"
  by (induction s rule: universal_newlines.induct) (auto simp: LF_def CR_def)

lemma un_append:
  "a = [] \<or> last a \<noteq> CR \<or> b = [] \<or> hd b \<noteq> LF \<Longrightarrow>
   universal_newlines (a @ b) = universal_newlines a @ universal_newlines b"
proof (induction a rule: universal_newlines.induct)
  case 1
  then show ?case by simp
next
  case (2 c)
  then show ?case by (cases b) (auto simp: un_notCR)
next
  case (3 c d ds)
  then show ?case by (auto simp: un_notCR split: if_splits)
qed

text \<open>A stream of decodable pieces is read as the translation of the whole text.\<close>

lemma decode_chunks_Decodes:
  "decode_chunks pendingcr (map Decodes parts)
   = (universal_newlines ((if pendingcr then [CR] else []) @ concat parts), False)"
proof (induction parts arbitrary: pendingcr)
  case Nil
  then show ?case by (simp add: CR_def LF_def)
next
  case (Cons s parts)
  define out where "out = (if pendingcr then CR # s else s)"
  define held where "held = (out \<noteq> [] \<and> last out = CR)"
  have step: "decode_chunks pendingcr (map Decodes (s # parts)) =
              (universal_newlines (if held then butlast out else out)
                 @ universal_newlines ((if held then [CR] else []) @ concat parts), False)"
    using Cons.IH [of held] by (simp add: out_def held_def Let_def)
  have whole: "(if pendingcr then [CR] else []) @ concat (s # parts) = out @ concat parts"
    by (simp add: out_def)
  have "universal_newlines (out @ concat parts) =
        universal_newlines (if held then butlast out else out)
          @ universal_newlines ((if held then [CR] else []) @ concat parts)"
  proof (cases held)
    case True
    then have o: "out = butlast out @ [CR]"
      unfolding held_def by (metis append_butlast_last_id)
    have "universal_newlines ((butlast out @ [CR]) @ concat parts)
          = universal_newlines (butlast out) @ universal_newlines (CR # concat parts)"
      by (simp add: un_append LF_def CR_def)
    with True o show ?thesis by simp
  next
    case False
    then have "universal_newlines (out @ concat parts)
               = universal_newlines out @ universal_newlines (concat parts)"
      unfolding held_def by (intro un_append) auto
    with False show ?thesis by simp
  qed
  then show ?case
    unfolding step whole by simp
qed




lemma text_readline_decoded: "text_readline False s = Inr (readline s)"
  by (simp add: text_readline_def split: prod.splits)

lemma readline_text_lines:
  "s \<noteq> [] \<Longrightarrow> readline s = (l, r) \<Longrightarrow> l \<noteq> [] \<and> text_lines s = l # text_lines r"
proof (induction s arbitrary: l r)
  case Nil
  then show ?case by simp
next
  case (Cons c cs)
  show ?case
  proof (cases "c = LF")
    case True
    with Cons.prems show ?thesis by auto
  next
    case False
    obtain l' r' where lr: "readline cs = (l', r')" by (cases "readline cs")
    with False Cons.prems have l: "l = c # l'" and r: "r = r'" by auto
    show ?thesis
    proof (cases cs)
      case Nil
      with lr l r False show ?thesis by auto
    next
      case (Cons d ds)
      then have "cs \<noteq> []" by simp
      from Cons.IH [OF this lr] l r False show ?thesis by simp
    qed
  qed
qed

lemma readline_first_line: "readline s = (line_at s 0, snd (readline s))"
proof (cases "s = []")
  case True
  then show ?thesis by (simp add: line_at_def)
next
  case False
  obtain l r where lr: "readline s = (l, r)" by (cases "readline s")
  from readline_text_lines [OF False lr] lr show ?thesis by (simp add: line_at_def)
qed

lemma readline_second_line: "line_at (snd (readline s)) 0 = line_at s 1"
proof (cases "s = []")
  case True
  then show ?thesis by (simp add: line_at_def)
next
  case False
  obtain l r where lr: "readline s = (l, r)" by (cases "readline s")
  from readline_text_lines [OF False lr] lr show ?thesis
    by (cases "text_lines r") (simp_all add: line_at_def)
qed

lemma concat_text_lines: "concat (text_lines s) = s"
  by (induction s) (auto split: list.splits)









text \<open>What \<open>save_selected_env\<close> leaves, case by case.\<close>

lemma save_selected_env_result:
  "save_selected_env pf env_type env_name fs =
     (case write_error pf SETTINGS_FILE of
        Some e \<Rightarrow> (Some e, fs)
      | None \<Rightarrow>
          if can_encode pf (env_type @ [LF] @ env_name)
          then (None, fs(SETTINGS_FILE \<mapsto>
                          [Decodes (write_newlines (os_nt pf) (env_type @ [LF] @ env_name))]))
          else (Some UnicodeEncodeError, fs(SETTINGS_FILE \<mapsto> [])))"
  by (simp add: save_selected_env_def open_w_def write_close_def split: option.splits)

text \<open>What \<open>load_selected_env\<close> gives for a file that opens and decodes.\<close>

lemma load_selected_env_decoded:
  assumes "fs SETTINGS_FILE = Some content" and "read_error pf SETTINGS_FILE = None"
    and "decode_chunks False content = (text, False)"
  shows "load_selected_env pf fs
           = Inr (Some (strip (line_at text 0)), Some (strip (line_at text 1)))"
proof -
  obtain l1 r1 where r1: "readline text = (l1, r1)" by (cases "readline text")
  obtain l2 r2 where r2: "readline r1 = (l2, r2)" by (cases "readline r1")
  have "l1 = line_at text 0" using readline_first_line [of "text"] r1 by simp
  moreover have "l2 = line_at text 1"
    using readline_first_line [of r1] readline_second_line [of "text"] r1 r2 by simp
  ultimately show ?thesis
    using assms r1 r2
    by (simp add: load_selected_env_def open_r_def text_readline_decoded)
qed

section \<open>Selection Store\<close>




text \<open>
  C5, as stated, fails on both counts. A record that is malformed is not turned into
  the none pair: a file holding the single line \<open>garbage\<close> is returned as
  \<open>("garbage", "")\<close>. And the function can raise: on a file whose bytes the locale's
  encoding cannot decode, \<open>readline\<close> raises \<open>UnicodeDecodeError\<close>, which is not
  handled.
\<close>

theorem load_selected_env_malformed_record:
  "load_selected_env posix_utf8 (empty_fs(SETTINGS_FILE \<mapsto> [Decodes ''garbage'']))
     = Inr (Some ''garbage'', Some [])
   \<and> load_selected_env posix_utf8 (empty_fs(SETTINGS_FILE \<mapsto> [Decodes ''garbage'']))
     \<noteq> Inr (None, None)
   \<and> load_selected_env posix_utf8 (empty_fs(SETTINGS_FILE \<mapsto> [Undecodable]))
     = Inl UnicodeDecodeError"
  by (simp add: load_selected_env_def open_r_def text_readline_def posix_utf8_def no_error_def
        strip_def isspace_def LF_def CR_def)

text \<open>
  C5, amended: \<open>load_selected_env\<close> returns the none pair when settings.json does
  not exist. For a file that exists, can be opened and is decoded by the locale's
  encoding, it returns the first two lines of the file, each stripped (the empty string
  for a line that is missing), whatever they are: it does not check the record. It
  raises to its caller the exception of \<open>open\<close>, unless that is
  \<open>FileNotFoundError\<close>, and \<open>UnicodeDecodeError\<close> for a file that starts with
  bytes that cannot be decoded.
\<close>

theorem load_selected_env_cases:
  "(fs SETTINGS_FILE = None \<longrightarrow> load_selected_env pf fs = Inr (None, None))
   \<and> (fs SETTINGS_FILE = Some content \<and> read_error pf SETTINGS_FILE = None
        \<and> decode_chunks False content = (decoded, False) \<longrightarrow>
        load_selected_env pf fs
          = Inr (Some (strip (line_at decoded 0)), Some (strip (line_at decoded 1))))
   \<and> (fs SETTINGS_FILE = Some content \<and> read_error pf SETTINGS_FILE = Some e
        \<and> e \<noteq> FileNotFoundError \<longrightarrow>
        load_selected_env pf fs = Inl e)
   \<and> (fs SETTINGS_FILE = Some (Undecodable # rest) \<and> read_error pf SETTINGS_FILE = None \<longrightarrow>
        load_selected_env pf fs = Inl UnicodeDecodeError)"
proof (intro conjI impI)
  assume "fs SETTINGS_FILE = None"
  then show "load_selected_env pf fs = Inr (None, None)"
    by (simp add: load_selected_env_def open_r_def)
next
  assume "fs SETTINGS_FILE = Some content \<and> read_error pf SETTINGS_FILE = None
          \<and> decode_chunks False content = (decoded, False)"
  then show "load_selected_env pf fs
               = Inr (Some (strip (line_at decoded 0)), Some (strip (line_at decoded 1)))"
    by (intro load_selected_env_decoded) auto
next
  assume "fs SETTINGS_FILE = Some content \<and> read_error pf SETTINGS_FILE = Some e
          \<and> e \<noteq> FileNotFoundError"
  then show "load_selected_env pf fs = Inl e"
    by (simp add: load_selected_env_def open_r_def)
next
  assume "fs SETTINGS_FILE = Some (Undecodable # rest) \<and> read_error pf SETTINGS_FILE = None"
  then show "load_selected_env pf fs = Inl UnicodeDecodeError"
    by (simp add: load_selected_env_def open_r_def text_readline_def)
qed

text \<open>
  C5, amended: no file; a file of three lines, of which the third is not read; a path
  that is a directory; a file of undecodable bytes.
\<close>

theorem load_selected_env_cases_witness:
  "load_selected_env posix_utf8 empty_fs = Inr (None, None)
   \<and> load_selected_env posix_utf8 (empty_fs(SETTINGS_FILE \<mapsto> [Decodes three_lines]))
       = Inr (Some ''conda'', Some ''base'')
   \<and> load_selected_env (posix_utf8\<lparr>read_error := directory_error\<rparr>)
         (empty_fs(SETTINGS_FILE \<mapsto> [])) = Inl IsADirectoryError
   \<and> load_selected_env posix_utf8 (empty_fs(SETTINGS_FILE \<mapsto> [Undecodable, Decodes three_lines]))
       = Inl UnicodeDecodeError"
proof -
  define lines where "lines = ''conda '' @ [LF] @ ''  base'' @ [LF] @ ''more''"
  have h1: "empty_fs SETTINGS_FILE = None" by (simp add: empty_fs_def)
  have r: "read_error posix_utf8 SETTINGS_FILE = None"
    by (simp add: posix_utf8_def no_error_def)
  have d: "decode_chunks False [Decodes three_lines] = (lines, False)"
    by (simp add: three_lines_def lines_def LF_def CR_def)
  have l0: "strip (line_at lines 0) = ''conda''" and l1: "strip (line_at lines 1) = ''base''"
    by (simp_all add: lines_def line_at_def strip_def isspace_def LF_def)
  have h3: "read_error (posix_utf8\<lparr>read_error := directory_error\<rparr>) SETTINGS_FILE
            = Some IsADirectoryError" "IsADirectoryError \<noteq> FileNotFoundError"
    by (simp_all add: directory_error_def)
  show ?thesis
    using load_selected_env_cases [where fs = empty_fs and pf = posix_utf8]
      load_selected_env_cases
        [where fs = "empty_fs(SETTINGS_FILE \<mapsto> [Decodes three_lines])"
           and content = "[Decodes three_lines]" and pf = posix_utf8 and decoded = lines]
      load_selected_env_cases
        [where fs = "empty_fs(SETTINGS_FILE \<mapsto> [])" and content = "[]"
           and pf = "posix_utf8\<lparr>read_error := directory_error\<rparr>"
           and e = IsADirectoryError]
      load_selected_env_cases
        [where fs = "empty_fs(SETTINGS_FILE \<mapsto> [Undecodable, Decodes three_lines])"
           and pf = posix_utf8 and rest = "[Decodes three_lines]"]
      h1 r d l0 l1 h3
    by simp
qed

text \<open>
  C10, as stated, fails: the record is overwritten in place. With \<open>("venv", "old")\<close>
  saved, a reader that runs while \<open>("conda", "new")\<close> is being saved, after the file was
  opened for writing and before it is closed, gets two empty strings: neither the old
  record nor the new one.
\<close>

theorem save_selected_env_partial_record_visible:
  "load_selected_env posix_utf8 old_selection = Inr (Some ''venv'', Some ''old'')
   \<and> load_selected_env posix_utf8
       (hd (save_selected_env_states posix_utf8 ''conda'' ''new'' old_selection))
     = Inr (Some [], Some [])
   \<and> load_selected_env posix_utf8
       (last (save_selected_env_states posix_utf8 ''conda'' ''new'' old_selection))
     = Inr (Some ''conda'', Some ''new'')"
  by (simp add: save_selected_env_states_def save_selected_env_result open_w_def
        load_selected_env_def open_r_def text_readline_def can_encode_def old_selection_def
        posix_utf8_def no_error_def all_chars_def strip_def isspace_def LF_def CR_def)

text \<open>
  C10, amended: \<open>save_selected_env\<close> writes settings.json in place and touches no
  other path (there is no temporary file and no rename). When the file can be opened
  for writing, opening truncates it, and the two lines arrive when it is closed (none
  arrive when the text cannot be encoded); in between the file is empty, and
  \<open>load_selected_env\<close>, if it can open the file, then returns two empty strings.
\<close>

theorem save_selected_env_overwrites_in_place:
  "save_selected_env_states pf env_type env_name fs =
     (case write_error pf SETTINGS_FILE of
        Some e \<Rightarrow> []
      | None \<Rightarrow>
          [fs(SETTINGS_FILE \<mapsto> []),
           fs(SETTINGS_FILE \<mapsto>
                if can_encode pf (env_type @ [LF] @ env_name)
                then [Decodes (write_newlines (os_nt pf) (env_type @ [LF] @ env_name))]
                else [])])
   \<and> load_selected_env pf (fs(SETTINGS_FILE \<mapsto> [])) =
       (case read_error pf SETTINGS_FILE of
          None \<Rightarrow> Inr (Some [], Some [])
        | Some e \<Rightarrow> if e = FileNotFoundError then Inr (None, None) else Inl e)"
  by (simp add: save_selected_env_states_def save_selected_env_result open_w_def
        load_selected_env_def open_r_def text_readline_def strip_def split: option.splits)

section \<open>Version Resolver\<close>

lemma fold_version_map_None:
  "fold (\<lambda>full_version version_map. version_map(major_minor full_version \<mapsto> full_version)) vs m k = None
   \<longleftrightarrow> m k = None \<and> k \<notin> major_minor ` set vs"
  by (induction vs arbitrary: m) auto

lemma build_version_map_None:
  "build_version_map vs k = None \<longleftrightarrow> k \<notin> major_minor ` set vs"
  by (simp add: build_version_map_def fold_version_map_None)

lemma findall_mock_index: "findall mock_index = [''3.11.0'', ''3.11.9'', ''3.11.2'', ''3.10.8'']"
  by code_simp

text \<open>
  C1: the claim says that \<open>get_full_version("3.11")\<close> on an index holding exactly
  3.11.0, 3.11.9, 3.11.2 and 3.10.8 returns 3.11.9. The code returns 3.11.0: the list
  is sorted greatest first, and the loop that fills \<open>version_map\<close> lets every later,
  smaller version replace the one stored for the same \<open>major.minor\<close>.
\<close>

theorem get_full_version_mock_index:
  "get_full_version (Response 200 mock_index) ''3.11'' = ''3.11.0''"
  by code_simp

text \<open>
  C9, as stated, fails: a response with a status that is not 2xx is not always treated
  as a failed call. With status 300 and the index above as body, \<open>raise_for_status\<close>
  raises nothing and \<open>get_full_version("3.11")\<close> resolves the version from the body
  instead of returning \<open>3.11\<close> unchanged.
\<close>

theorem get_full_version_status_300:
  "get_full_version (Response 300 mock_index) ''3.11'' = ''3.11.0''
   \<and> get_full_version (Response 300 mock_index) ''3.11'' \<noteq> ''3.11''"
  by code_simp

text \<open>
  C9, amended: \<open>get_full_version\<close> returns the requested string unchanged when the
  request raises a \<open>RequestException\<close>, when the status code is one of 400 to 599
  (for which \<open>raise_for_status\<close> raises), and when no release of the fetched index
  has the requested \<open>major.minor\<close>; so a request for 9.9 on an index without a 9.9
  release returns 9.9. A response with any other status code, 2xx or not, is resolved
  from its body exactly as a response with status 200.
\<close>

theorem get_full_version_fallback:
  "get_full_version RequestException version_display = version_display
   \<and> (raise_for_status status_code \<longrightarrow>
        get_full_version (Response status_code text) version_display = version_display)
   \<and> (version_display \<notin> major_minor ` set (findall text) \<longrightarrow>
        get_full_version (Response status_code text) version_display = version_display)
   \<and> (\<not> raise_for_status status_code \<longrightarrow>
        get_full_version (Response status_code text) version_display
          = get_full_version (Response 200 text) version_display)"
proof -
  have "version_display \<notin> major_minor ` set (findall text) \<Longrightarrow>
        build_version_map (rev (sort (findall text))) version_display = None"
    by (simp add: build_version_map_None)
  then show ?thesis
    by (auto simp: get_full_version_def raise_for_status_def)
qed

text \<open>
  C9, amended, on the index above: a 404 response to a request for 3.11, a request for
  9.9, which the index lacks, and a 304 response, resolved as a 200 response is.
\<close>

theorem get_full_version_fallback_witness:
  "raise_for_status 404 \<and> get_full_version (Response 404 mock_index) ''3.11'' = ''3.11''
   \<and> ''9.9'' \<notin> major_minor ` set (findall mock_index)
   \<and> get_full_version (Response 200 mock_index) ''9.9'' = ''9.9''
   \<and> \<not> raise_for_status 304
   \<and> get_full_version (Response 304 mock_index) ''3.10''
       = get_full_version (Response 200 mock_index) ''3.10''"
proof -
  have h1: "raise_for_status 404" by (simp add: raise_for_status_def)
  have h2: "''9.9'' \<notin> major_minor ` set (findall mock_index)"
    unfolding findall_mock_index by code_simp
  have h3: "\<not> raise_for_status 304" by (simp add: raise_for_status_def)
  show ?thesis
    using h1 h2 h3 get_full_version_fallback [of "''3.11''" 404 mock_index]
      get_full_version_fallback [of "''9.9''" 200 mock_index]
      get_full_version_fallback [of "''3.10''" 304 mock_index]
    by simp
qed

section \<open>Environment Registry\<close>

lemma str_int_nat: "str_int (int k) = str_nat k"
  by (simp add: str_int_def)

lemma candidate_Suc: "candidate base (Suc k) = base @ ''_'' @ str_int (int k + 1)"
proof -
  have "int k + 1 = int (Suc k)" by simp
  then show ?thesis by (simp only: str_int_nat candidate_def) simp
qed

lemma venv_name_loop_from:
  "\<not> ex (candidate base (k + j)) \<Longrightarrow> \<forall>i<j. ex (candidate base (k + i)) \<Longrightarrow>
   venv_name_loop ex base (int k) (candidate base k) = Some (candidate base (k + j))"
proof (induction j arbitrary: k)
  case 0
  then show ?case by (subst venv_name_loop.simps) simp
next
  case (Suc j)
  from Suc.prems(2) have here: "ex (candidate base k)" by force
  have free: "\<not> ex (candidate base (Suc k + j))" using Suc.prems(1) by simp
  have taken: "\<forall>i<j. ex (candidate base (Suc k + i))"
  proof (intro allI impI)
    fix i assume "i < j"
    then have "Suc i < Suc j" by simp
    with Suc.prems(2) have "ex (candidate base (k + Suc i))" by blast
    then show "ex (candidate base (Suc k + i))" by simp
  qed
  have step: "venv_name_loop ex base (int k) (candidate base k) =
              venv_name_loop ex base (int (Suc k)) (candidate base (Suc k))"
    using here by (subst venv_name_loop.simps) (simp add: candidate_Suc add.commute)
  show ?case
    using Suc.IH [OF free taken] step by simp
qed

lemma conda_name_loop_from:
  "candidate base (k + j) \<notin> set envs \<Longrightarrow> \<forall>i<j. candidate base (k + i) \<in> set envs \<Longrightarrow>
   conda_name_loop envs base (int k) (candidate base k) = Some (candidate base (k + j))"
proof (induction j arbitrary: k)
  case 0
  then show ?case by (subst conda_name_loop.simps) simp
next
  case (Suc j)
  from Suc.prems(2) have here: "candidate base k \<in> set envs" by force
  have free: "candidate base (Suc k + j) \<notin> set envs" using Suc.prems(1) by simp
  have taken: "\<forall>i<j. candidate base (Suc k + i) \<in> set envs"
  proof (intro allI impI)
    fix i assume "i < j"
    then have "Suc i < Suc j" by simp
    with Suc.prems(2) have "candidate base (k + Suc i) \<in> set envs" by blast
    then show "candidate base (Suc k + i) \<in> set envs" by simp
  qed
  have step: "conda_name_loop envs base (int k) (candidate base k) =
              conda_name_loop envs base (int (Suc k)) (candidate base (Suc k))"
    using here by (subst conda_name_loop.simps) (simp add: candidate_Suc add.commute)
  show ?case
    using Suc.IH [OF free taken] step by simp
qed

lemma candidate_0: "candidate base 0 = base"
  by (simp add: candidate_def)

lemma digit_char_value: "d < 10 \<Longrightarrow> of_char (digit_char d) - 48 = d"
  by (simp add: digit_char_def)

lemma str_nat_value: "foldl (\<lambda>a c. 10 * a + (of_char c - 48)) 0 (str_nat n) = n"
proof (induction n rule: str_nat.induct)
  case (1 n)
  show ?case
  proof (cases "n < 10")
    case True
    then show ?thesis by (subst str_nat.simps) (simp add: digit_char_value)
  next
    case False
    then have "foldl (\<lambda>a c. 10 * a + (of_char c - 48)) 0 (str_nat (n div 10)) = n div 10"
      using "1.IH" by simp
    with False show ?thesis
      by (subst str_nat.simps) (simp add: digit_char_value)
  qed
qed

lemma str_nat_inj: "str_nat m = str_nat n \<Longrightarrow> m = n"
  by (metis str_nat_value)

lemma candidate_inj: "inj (candidate base)"
proof (rule injI)
  fix j k assume eq: "candidate base j = candidate base k"
  have len: "\<And>i. i \<noteq> 0 \<Longrightarrow> length (candidate base i) > length base"
    by (simp add: candidate_def)
  show "j = k"
  proof (cases "j = 0 \<or> k = 0")
    case True
    then show ?thesis
      using eq len [of j] len [of k] by (auto simp: candidate_def split: if_splits)
  next
    case False
    with eq have "str_nat j = str_nat k" by (simp add: candidate_def)
    then show ?thesis by (rule str_nat_inj)
  qed
qed

lemma free_candidate: "finite S \<Longrightarrow> \<exists>k. candidate base k \<notin> S \<and> (\<forall>i<k. candidate base i \<in> S)"
proof -
  assume fin: "finite S"
  have "\<exists>k. candidate base k \<notin> S"
  proof (rule ccontr)
    assume "\<not> (\<exists>k. candidate base k \<notin> S)"
    then have "range (candidate base) \<subseteq> S" by auto
    then have "finite (range (candidate base))" using fin by (rule finite_subset)
    then have "finite (UNIV :: nat set)" using candidate_inj by (rule finite_imageD)
    then show False by simp
  qed
  then obtain k where k: "candidate base k \<notin> S" ..
  define m where "m = (LEAST k. candidate base k \<notin> S)"
  have "candidate base m \<notin> S" unfolding m_def using k by (rule LeastI)
  moreover have "\<forall>i<m. candidate base i \<in> S"
    unfolding m_def using not_less_Least by blast
  ultimately show ?thesis by blast
qed

text \<open>
  The names in use are finitely many, so some candidate is free and both loops end:
  \<open>create_conda_env\<close> always returns a name, and \<open>create_virtual_env\<close> returns
  (a name or the exception of \<open>check_call\<close>) whenever finitely many paths exist.
\<close>

lemma create_conda_env_returns: "\<exists>n. create_conda_env envs env_name = Some n"
proof -
  define base where "base = (if env_name = [] then ''myenv'' else env_name)"
  obtain k where "candidate base k \<notin> set envs" "\<forall>i<k. candidate base i \<in> set envs"
    using free_candidate [of "set envs" base] by auto
  then have "conda_name_loop envs base (int 0) (candidate base 0) = Some (candidate base (0 + k))"
    by (intro conda_name_loop_from) simp_all
  then show ?thesis
    by (simp add: create_conda_env_def base_def candidate_0)
qed

lemma create_virtual_env_returns:
  assumes "finite {n. path_exists n}"
  shows "\<exists>r. create_virtual_env path_exists check_call env_name python_version = Some r"
proof -
  define base where "base = (if env_name = [] then ''myenv'' else env_name)"
  obtain k where "candidate base k \<notin> {n. path_exists n}"
      "\<forall>i<k. candidate base i \<in> {n. path_exists n}"
    using free_candidate [OF assms, of base] by auto
  then have "venv_name_loop path_exists base (int 0) (candidate base 0)
             = Some (candidate base (0 + k))"
    by (intro venv_name_loop_from) simp_all
  then have loop: "venv_name_loop path_exists base 0 base = Some (candidate base k)"
    by (simp add: candidate_0)
  show ?thesis
    unfolding create_virtual_env_def Let_def base_def [symmetric] loop
    by (simp split: option.splits)
qed

text \<open>
  C8: with the base name \<open>b\<close>, or \<open>myenv\<close> when \<open>b\<close> is empty, and \<open>k\<close> the first
  index whose candidate \<open>base, base_1, base_2, \<dots>\<close> does not exist while every
  candidate of a smaller index does, the loop of \<open>create_virtual_env\<close> stops at
  candidate \<open>k\<close> (the function then returns it, unless \<open>check_call\<close> raises), and
  \<open>create_conda_env\<close> returns candidate \<open>k\<close>, existence there being membership in
  the list of conda environments.
\<close>

theorem unique_name_first_free:
  assumes "base = (if b = [] then ''myenv'' else b)"
  shows "(\<not> ex (candidate base k) \<and> (\<forall>i<k. ex (candidate base i)) \<longrightarrow>
            create_virtual_env ex check_call b v =
              Some (case check_call [''py'', ''-'' @ v, ''-m'', ''venv'', candidate base k] of
                      Some e \<Rightarrow> Inl e
                    | None \<Rightarrow> Inr (candidate base k)))
       \<and> (candidate base k \<notin> set envs \<and> (\<forall>i<k. candidate base i \<in> set envs) \<longrightarrow>
            create_conda_env envs b = Some (candidate base k))"
proof (intro conjI impI)
  assume h: "\<not> ex (candidate base k) \<and> (\<forall>i<k. ex (candidate base i))"
  have "venv_name_loop ex base (int 0) (candidate base 0) = Some (candidate base (0 + k))"
    using h by (intro venv_name_loop_from) simp_all
  then have "venv_name_loop ex base 0 base = Some (candidate base k)"
    by (simp add: candidate_0)
  then show "create_virtual_env ex check_call b v =
              Some (case check_call [''py'', ''-'' @ v, ''-m'', ''venv'', candidate base k] of
                      Some e \<Rightarrow> Inl e
                    | None \<Rightarrow> Inr (candidate base k))"
    using assms by (simp add: create_virtual_env_def split: option.splits)
next
  assume h: "candidate base k \<notin> set envs \<and> (\<forall>i<k. candidate base i \<in> set envs)"
  have "conda_name_loop envs base (int 0) (candidate base 0) = Some (candidate base (0 + k))"
    using h by (intro conda_name_loop_from) simp_all
  then have "conda_name_loop envs base 0 base = Some (candidate base k)"
    by (simp add: candidate_0)
  then show "create_conda_env envs b = Some (candidate base k)"
    using assms by (simp add: create_conda_env_def)
qed

text \<open>C8 with \<open>myenv\<close> and \<open>myenv_1\<close> taken and an empty requested name.\<close>

theorem unique_name_first_free_witness:
  "create_virtual_env taken_names check_call_ok [] ''3.11'' = Some (Inr ''myenv_2'')
   \<and> create_conda_env [''myenv'', ''myenv_1''] [] = Some ''myenv_2''"
proof -
  have c0: "candidate ''myenv'' 0 = ''myenv''" by code_simp
  have c1: "candidate ''myenv'' 1 = ''myenv_1''" by code_simp
  have c2: "candidate ''myenv'' 2 = ''myenv_2''" by code_simp
  have lt: "\<And>i::nat. i < 2 \<Longrightarrow> i = 0 \<or> i = 1" by auto
  have h1: "\<not> taken_names (candidate ''myenv'' 2) \<and> (\<forall>i<2. taken_names (candidate ''myenv'' i))"
    using c0 c1 c2 by (auto simp: taken_names_def dest!: lt)
  have h2: "candidate ''myenv'' 2 \<notin> set [''myenv'', ''myenv_1'']
            \<and> (\<forall>i<2. candidate ''myenv'' i \<in> set [''myenv'', ''myenv_1''])"
    using c0 c1 c2 by (auto dest!: lt)
  show ?thesis
    using unique_name_first_free [of "''myenv''" "[]" taken_names 2 check_call_ok "''3.11''"
            "[''myenv'', ''myenv_1'']"] h1 h2
    by (simp add: c2 check_call_ok_def)
qed

section \<open>Process Runner\<close>

lemma read_loop_lines:
  "read_loop False s =
     (concat (map (\<lambda>l. [Readline l, Emit (output_signal (strip l))]) (text_lines s))
        @ [Readline []], None)"
proof (induction False s rule: read_loop.induct)
  case (1 s)
  obtain l r where lr: "readline s = (l, r)" by (cases "readline s")
  show ?case
  proof (cases "s = []")
    case True
    then show ?thesis by (subst read_loop.simps) (simp add: text_readline_decoded)
  next
    case False
    from readline_text_lines [OF False lr] have l: "l \<noteq> []" and t: "text_lines s = l # text_lines r"
      by auto
    have "text_readline False s = Inr (l, r)" by (simp add: text_readline_decoded lr)
    from "1.hyps" [OF this refl l] lr l t show ?thesis
      by (subst read_loop.simps) (simp add: text_readline_decoded)
  qed
qed

lemma emitted_append: "emitted (xs @ ys) = emitted xs @ emitted ys"
  by (simp add: emitted_def)

lemma emitted_lines:
  "emitted (concat (map (\<lambda>l. [Readline l, Emit (output_signal (strip l))]) ls))
   = map (\<lambda>l. output_signal (strip l)) ls"
  by (induction ls) (auto simp: emitted_def)

text \<open>
  C2, as stated, fails: a started process does not always get its terminal event. When
  the child writes bytes that the locale's encoding cannot decode, \<open>readline\<close> raises
  \<open>UnicodeDecodeError\<close>, which ends \<open>run\<close> before \<open>process.wait()\<close>: here the
  first line is delivered, and \<open>finished_signal\<close> is never emitted although the
  child exits with code 0.
\<close>

theorem run_undecodable_output_no_terminal_event:
  "run popen_undecodable conda_create_job
     = ([Readline (''Solving'' @ [LF]), Emit (output_signal ''Solving'')],
        Some UnicodeDecodeError)
   \<and> emitted (fst (run popen_undecodable conda_create_job)) = [output_signal ''Solving'']"
  by (simp add: run_def popen_undecodable_def read_loop.simps text_readline_def emitted_def
        strip_def isspace_def LF_def CR_def)

text \<open>
  C2, amended: when the process is started and the text layer decodes all its output,
  \<open>run\<close> reads the lines of that output one by one, in the order the child wrote
  them, and emits each line (stripped) on \<open>output_signal\<close> before it reads the next;
  after the read at the end of the stream and \<open>process.wait()\<close> it emits
  \<open>finished_signal\<close> once, last, with the exit code and the \<open>env_name\<close> given at
  construction.
\<close>

theorem run_streams_lines_in_order:
  assumes "Popen (self_command self) = Child (map Decodes parts) return_code"
  shows "run Popen self =
           (concat (map (\<lambda>l. [Readline l, Emit (output_signal (strip l))])
                      (text_lines (universal_newlines (concat parts))))
              @ [Readline [], Wait return_code,
                 Emit (finished_signal return_code (self_env_name self))],
            None)
         \<and> emitted (fst (run Popen self)) =
             map (\<lambda>l. output_signal (strip l)) (text_lines (universal_newlines (concat parts)))
               @ [finished_signal return_code (self_env_name self)]"
proof -
  have d: "decode_chunks False (map Decodes parts) = (universal_newlines (concat parts), False)"
    using decode_chunks_Decodes [of False parts] by simp
  have r: "run Popen self =
           (concat (map (\<lambda>l. [Readline l, Emit (output_signal (strip l))])
                      (text_lines (universal_newlines (concat parts))))
              @ [Readline [], Wait return_code,
                 Emit (finished_signal return_code (self_env_name self))],
            None)"
    using assms by (simp add: run_def d read_loop_lines del: decode_chunks.simps)
  show ?thesis
    unfolding r by (simp add: emitted_append emitted_lines) (simp add: emitted_def)
qed

text \<open>
  C2, amended, on a child whose output arrives in two pieces, split inside a line end:
  three lines, one of them empty; it exits with code 1.
\<close>

theorem run_streams_lines_in_order_witness:
  "run popen_exits_1 conda_create_job =
     ([Readline (''Collecting package metadata'' @ [LF]),
       Emit (output_signal ''Collecting package metadata''),
       Readline [LF], Emit (output_signal []),
       Readline ''  failed'', Emit (output_signal ''failed''),
       Readline [], Wait 1, Emit (finished_signal 1 ''myenv'')], None)
   \<and> emitted (fst (run popen_exits_1 conda_create_job)) =
     [output_signal ''Collecting package metadata'', output_signal [], output_signal ''failed'',
      finished_signal 1 ''myenv'']"
proof -
  have h: "popen_exits_1 (self_command conda_create_job) =
           Child (map Decodes [''Collecting package metadata'' @ [CR], [LF, LF] @ ''  failed'']) 1"
    by (simp add: popen_exits_1_def)
  show ?thesis
    using run_streams_lines_in_order [of popen_exits_1 conda_create_job, OF h]
    by (simp add: conda_create_job_def strip_def isspace_def LF_def CR_def emitted_def)
qed

text \<open>
  C7: the claim says that a failure to start the process is reported to the calling
  layer. When \<open>Popen\<close> raises \<open>FileNotFoundError\<close>, \<open>run\<close> is ended by that
  exception before it has emitted anything: no \<open>output_signal\<close>, no
  \<open>finished_signal\<close>, so the listeners connected by the caller receive nothing.
\<close>

theorem run_spawn_failure_emits_nothing:
  "run popen_not_found conda_create_job = ([], Some FileNotFoundError)"
  by (simp add: run_def popen_not_found_def)

section \<open>Activation Launcher\<close>

text \<open>
  C6, as stated, fails: with the unknown kind \<open>docker\<close> and the name \<open>web\<close>,
  \<open>launch_activated_cmd\<close> raises nothing and starts a shell.
\<close>

theorem launch_activated_cmd_unknown_kind_spawns:
  "launch_activated_cmd ''posix'' posixpath_join popen_ok ''docker'' ''web'' =
     [Log INFO [Str ''Launching CMD with activation for: web (Type: docker)''],
      Log INFO [Str ''Executing command: '',
                StrList [''/bin/bash'', ''-c'', ''echo Error: Unknown environment type && pause'']],
      Spawned [''/bin/bash'', ''-c'', ''echo Error: Unknown environment type && pause''] 0,
      Log SUCCESS [Str ''subprocess.Popen for activated CMD called.'']]"
  by (simp add: launch_activated_cmd_def popen_ok_def Let_def)

text \<open>
  C6, amended: with an empty name \<open>launch_activated_cmd\<close> logs
  \<open>Error: No environment name provided.\<close> and returns, starting no process and raising
  nothing. With a name and a kind that is neither \<open>venv\<close> nor \<open>conda\<close> it raises
  nothing either and does start a process: the shell of the platform, running
  \<open>echo Error: Unknown environment type && pause\<close>.
\<close>

theorem launch_activated_cmd_checks:
  assumes "cmd = (if os_name = ''nt''
                  then [''cmd.exe'', ''/K'', ''echo Error: Unknown environment type && pause'']
                  else [''/bin/bash'', ''-c'', ''echo Error: Unknown environment type && pause''])"
    and "creationflags = (if os_name = ''nt'' then CREATE_NEW_CONSOLE else 0)"
  shows "launch_activated_cmd os_name path_join Popen env_type [] =
           [Log ERROR [Str ''Error: No environment name provided.'']]
       \<and> (env_name \<noteq> [] \<and> env_type \<noteq> ''venv'' \<and> env_type \<noteq> ''conda''
              \<and> Popen cmd creationflags = None \<longrightarrow>
            launch_activated_cmd os_name path_join Popen env_type env_name =
              [Log INFO [Str (''Launching CMD with activation for: '' @ env_name
                                @ '' (Type: '' @ env_type @ '')'')],
               Log INFO [Str ''Executing command: '', StrList cmd],
               Spawned cmd creationflags,
               Log SUCCESS [Str ''subprocess.Popen for activated CMD called.'']])"
  using assms by (simp add: launch_activated_cmd_def Let_def)

text \<open>C6, amended, with the kind \<open>pipenv\<close> outside Windows.\<close>

theorem launch_activated_cmd_checks_witness:
  "launch_activated_cmd ''posix'' posixpath_join popen_ok ''pipenv'' [] =
     [Log ERROR [Str ''Error: No environment name provided.'']]
   \<and> launch_activated_cmd ''posix'' posixpath_join popen_ok ''pipenv'' ''api'' =
     [Log INFO [Str ''Launching CMD with activation for: api (Type: pipenv)''],
      Log INFO [Str ''Executing command: '',
                StrList [''/bin/bash'', ''-c'', ''echo Error: Unknown environment type && pause'']],
      Spawned [''/bin/bash'', ''-c'', ''echo Error: Unknown environment type && pause''] 0,
      Log SUCCESS [Str ''subprocess.Popen for activated CMD called.'']]"
proof -
  have h: "''api'' \<noteq> [] \<and> ''pipenv'' \<noteq> ''venv'' \<and> ''pipenv'' \<noteq> ''conda''
           \<and> popen_ok [''/bin/bash'', ''-c'', ''echo Error: Unknown environment type && pause''] 0 = None"
    by (simp add: popen_ok_def)
  show ?thesis
    using h launch_activated_cmd_checks
      [of "[''/bin/bash'', ''-c'', ''echo Error: Unknown environment type && pause'']"
          "''posix''" 0 posixpath_join popen_ok "''pipenv''" "''api''"]
    by simp
qed

section \<open>Settings and selection in one file\<close>























end
